theory Spec2Isabelle
  imports Main
begin

section \<open>Exceptions and call outcomes\<close>

text \<open>
  The only exception the curry decorators look at is \<^verbatim>\<open>TypeError\<close>. Its message is kept
  in structured form, since the source asserts on it:
  \<^verbatim>\<open>f() missing 1 required positional argument: 'z'\<close> is \<open>Missing ''f'' [''z'']\<close>,
  \<^verbatim>\<open>f() takes 1 positional argument but 2 were given\<close> is \<open>Takes_but_given ''f'' 1 2\<close>,
  \<^verbatim>\<open>'int' object is not callable\<close> is \<open>Not_callable\<close>; any other text is \<open>Message\<close>.
  Every exception that is not a \<^verbatim>\<open>TypeError\<close> is \<open>Raised\<close> with its class name.
\<close>

datatype type_error =
    Missing string "string list"
  | Takes_but_given string nat nat
  | Not_callable
  | Message string

datatype exn = TypeError type_error | Raised string

fun is_TypeError :: "exn \<Rightarrow> bool" where
  "is_TypeError (TypeError t) = True"
| "is_TypeError (Raised c) = False"

text \<open>
  What Python raises when a function declared with the positional parameters \<open>ps\<close> is
  called with \<open>m \<noteq> length ps\<close> positional arguments.
\<close>

definition wrong_arity :: "string \<Rightarrow> string list \<Rightarrow> nat \<Rightarrow> type_error" where
  "wrong_arity name ps m =
     (if m < length ps then Missing name (drop m ps)
      else Takes_but_given name (length ps) m)"

text \<open>What an arithmetic operator raises on operands it is not defined for.\<close>

definition unsupported :: "string \<Rightarrow> exn" where
  "unsupported operator = TypeError (Message (''unsupported operand type(s) for '' @ operator))"

section \<open>currier.py and currier\_pt.py: values and closures\<close>

text \<open>
  A Python value is either some non-callable object (\<open>Data\<close>), a function written with
  \<^verbatim>\<open>def\<close> at top level (\<open>Def\<close> and its name: the target of a decorator), or one of the
  closures the decorators build, together with the variables it closes over:
  \<^item> \<open>Get_fst_arg uncurried_func\<close>: \<^verbatim>\<open>get_fst_arg(x)\<close> of \<^verbatim>\<open>fst_arg_curry\<close>;
  \<^item> \<open>Get_other_args uncurried_func x\<close>: \<^verbatim>\<open>get_other_args(*args)\<close> of \<^verbatim>\<open>fst_arg_curry\<close>;
  \<^item> \<open>Get_one_arg func\<close>: \<^verbatim>\<open>get_one_arg(arg)\<close> of \<^verbatim>\<open>curry\<close> (currier.py, line 511);
  \<^item> \<open>Func_sem_ultimo func\<close>: \<^verbatim>\<open>func_sem_ultimo(*args)\<close> of \<^verbatim>\<open>curry_ultimo\<close>
    (\<^verbatim>\<open>func_with_last_applied\<close> of \<^verbatim>\<open>curry_last\<close> in currier.py);
  \<^item> \<open>Recebe_ultimo func args\<close>: \<^verbatim>\<open>recebe_ultimo(arg)\<close> of \<^verbatim>\<open>curry_ultimo\<close>
    (\<^verbatim>\<open>get_last_arg\<close> in currier.py).
\<close>

datatype 'a val =
    Data 'a
  | Def string
  | Get_fst_arg "'a val"
  | Get_other_args "'a val" "'a val"
  | Get_one_arg "'a val"
  | Func_sem_ultimo "'a val"
  | Recebe_ultimo "'a val" "'a val list"

text \<open>
  A target function has a fixed list of positional parameters and a body. The body is
  opaque: it maps the argument values and the state of the world (whatever its side
  effects act on) to a returned value or a raised exception, and a new state.
\<close>

record ('a, 's) target =
  params :: "string list"
  body :: "'a val list \<Rightarrow> 's \<Rightarrow> (exn + 'a val) \<times> 's"

type_synonym ('a, 's) program = "string \<rightharpoonup> ('a, 's) target"

subsection \<open>The decorators\<close>

text \<open>
  Each decorator only builds the closure it returns. \<open>curry_py\<close> is \<^verbatim>\<open>curry\<close> of
  currier.py, line 511.
\<close>

definition fst_arg_curry :: "'a val \<Rightarrow> 'a val" where
  "fst_arg_curry uncurried_func = Get_fst_arg uncurried_func"

definition curry_py :: "'a val \<Rightarrow> 'a val" where
  "curry_py func = Get_one_arg func"

definition curry_ultimo :: "'a val \<Rightarrow> 'a val" where
  "curry_ultimo func = Func_sem_ultimo func"

text \<open>The body of \<^verbatim>\<open>get_fst_arg(x)\<close>: it returns \<^verbatim>\<open>get_other_args\<close>, closed over \<open>x\<close>.\<close>

definition get_fst_arg ::
  "'a val \<Rightarrow> 'a val list \<Rightarrow> 's \<Rightarrow> (exn + 'a val) \<times> 's" where
  "get_fst_arg uncurried_func args s =
     (case args of
        [x] \<Rightarrow> (Inr (Get_other_args uncurried_func x), s)
      | _ \<Rightarrow> (Inl (TypeError (wrong_arity ''get_fst_arg'' [''x''] (length args))), s))"

subsection \<open>Calling a value\<close>

text \<open>
  \<open>call P f args s\<close> is the call \<^verbatim>\<open>f(*args)\<close> in state \<open>s\<close>. A target checks the
  number of arguments before its body runs. \<^verbatim>\<open>get_one_arg\<close> tries \<^verbatim>\<open>func(arg)\<close> and, on
  any \<^verbatim>\<open>TypeError\<close>, returns \<^verbatim>\<open>curry(fst_arg_curry(func)(arg))\<close>. The closures with
  \<^verbatim>\<open>*args\<close> take any number of arguments. A name the program does not define raises
  \<^verbatim>\<open>NameError\<close>.
\<close>

fun call ::
  "('a, 's) program \<Rightarrow> 'a val \<Rightarrow> 'a val list \<Rightarrow> 's \<Rightarrow> (exn + 'a val) \<times> 's" where
  "call P (Data d) args s = (Inl (TypeError Not_callable), s)"
| "call P (Def f) args s =
     (case P f of
        None \<Rightarrow> (Inl (Raised ''NameError''), s)
      | Some d \<Rightarrow>
          if length args = length (params d) then body d args s
          else (Inl (TypeError (wrong_arity f (params d) (length args))), s))"
| "call P (Get_fst_arg uncurried_func) args s = get_fst_arg uncurried_func args s"
| "call P (Get_other_args uncurried_func x) args s = call P uncurried_func (x # args) s"
| "call P (Get_one_arg func) args s =
     (case args of
        [arg] \<Rightarrow>
          (case call P func [arg] s of
             (Inl (TypeError t), s') \<Rightarrow>
               (case get_fst_arg func [arg] s' of
                  (Inr applied_one_arg, s'') \<Rightarrow> (Inr (curry_py applied_one_arg), s'')
                | (Inl e, s'') \<Rightarrow> (Inl e, s''))
           | r \<Rightarrow> r)
      | _ \<Rightarrow> (Inl (TypeError (wrong_arity ''get_one_arg'' [''arg''] (length args))), s))"
| "call P (Func_sem_ultimo func) args s = (Inr (Recebe_ultimo func args), s)"
| "call P (Recebe_ultimo func args) as s =
     (case as of
        [arg] \<Rightarrow> call P func (args @ [arg]) s
      | _ \<Rightarrow> (Inl (TypeError (wrong_arity ''recebe_ultimo'' [''arg''] (length as))), s))"

text \<open>\<open>call_each P f [v1, ..., vn] s\<close> is \<^verbatim>\<open>f(v1)...(vn)\<close>: one argument per call.\<close>

fun call_each ::
  "('a, 's) program \<Rightarrow> 'a val \<Rightarrow> 'a val list \<Rightarrow> 's \<Rightarrow> (exn + 'a val) \<times> 's" where
  "call_each P f [] s = (Inr f, s)"
| "call_each P f (v # vs) s =
     (case call P f [v] s of
        (Inl e, s') \<Rightarrow> (Inl e, s')
      | (Inr g, s') \<Rightarrow> call_each P g vs s')"

subsection \<open>Signatures and Strategy B\<close>

text \<open>
  The parameter list each callable declares, as \<^verbatim>\<open>inspect.signature\<close> reports it:
  positional parameters, or one \<^verbatim>\<open>*args\<close> parameter. A non-callable object has none.
\<close>

datatype parameters = Positional "string list" | Var_positional string

fun signature :: "('a, 's) program \<Rightarrow> 'a val \<Rightarrow> exn + parameters" where
  "signature P (Data d) = Inl (TypeError (Message ''is not a callable object''))"
| "signature P (Def f) =
     (case P f of
        None \<Rightarrow> Inl (Raised ''NameError'')
      | Some d \<Rightarrow> Inr (Positional (params d)))"
| "signature P (Get_fst_arg uncurried_func) = Inr (Positional [''x''])"
| "signature P (Get_other_args uncurried_func x) = Inr (Var_positional ''args'')"
| "signature P (Get_one_arg func) = Inr (Positional [''arg''])"
| "signature P (Func_sem_ultimo func) = Inr (Var_positional ''args'')"
| "signature P (Recebe_ultimo func args) = Inr (Positional [''arg''])"

text \<open>A unary callable declares exactly one positional parameter.\<close>

definition unary :: "('a, 's) program \<Rightarrow> 'a val \<Rightarrow> bool" where
  "unary P f = (case signature P f of Inr (Positional [p]) \<Rightarrow> True | _ \<Rightarrow> False)"

text \<open>\<^verbatim>\<open>numero_de_parametros\<close> is \<^verbatim>\<open>len(signature(func).parameters)\<close>.\<close>

definition numero_de_parametros :: "('a, 's) program \<Rightarrow> 'a val \<Rightarrow> exn + int" where
  "numero_de_parametros P func =
     (case signature P func of
        Inl e \<Rightarrow> Inl e
      | Inr (Positional ps) \<Rightarrow> Inr (int (length ps))
      | Inr (Var_positional a) \<Rightarrow> Inr 1)"

text \<open>
  The loop \<^verbatim>\<open>for _ in range(k): func = curry_ultimo(func)\<close>, and the two functions that
  run it with \<open>k = n - 1\<close> (\<^verbatim>\<open>range\<close> of a negative number is empty).
\<close>

fun curry_ultimo_loop :: "nat \<Rightarrow> 'a val \<Rightarrow> 'a val" where
  "curry_ultimo_loop 0 func = func"
| "curry_ultimo_loop (Suc k) func = curry_ultimo_loop k (curry_ultimo func)"

definition curry_n_args :: "int \<Rightarrow> 'a val \<Rightarrow> 'a val" where
  "curry_n_args n func = curry_ultimo_loop (nat (n - 1)) func"

definition curry_tudo :: "('a, 's) program \<Rightarrow> 'a val \<Rightarrow> exn + 'a val" where
  "curry_tudo P func =
     (case numero_de_parametros P func of
        Inl e \<Rightarrow> Inl e
      | Inr n \<Rightarrow> Inr (curry_ultimo_loop (nat (n - 1)) func))"

subsection \<open>The functions the walkthrough decorates\<close>

text \<open>
  \<^verbatim>\<open>usual_add(x, y)\<close>, \<^verbatim>\<open>add_3(y)\<close> and \<^verbatim>\<open>add_4(x, y, z, w)\<close>
  (\<^verbatim>\<open>soma_4_curried_tudo\<close> in currier\_pt.py) add their arguments from left to right,
  \<^verbatim>\<open>add_3\<close> to 3; \<^verbatim>\<open>+\<close> on anything but numbers raises \<^verbatim>\<open>TypeError\<close>. None has a side
  effect. A body is only ever run on as many arguments as it has parameters, since
  \<open>call\<close> checks their number first; on any other number it is given the error that check
  raises.
\<close>

fun plus_val :: "int val \<Rightarrow> int val \<Rightarrow> exn + int val" where
  "plus_val (Data a) (Data b) = Inr (Data (a + b))"
| "plus_val a b = Inl (unsupported ''+'')"

fun sum_vals :: "int val \<Rightarrow> int val list \<Rightarrow> exn + int val" where
  "sum_vals acc [] = Inr acc"
| "sum_vals acc (v # vs) =
     (case plus_val acc v of Inl e \<Rightarrow> Inl e | Inr acc' \<Rightarrow> sum_vals acc' vs)"

definition usual_add :: "(int, 's) target" where
  "usual_add = \<lparr>params = [''x'', ''y''],
     body = (\<lambda>args s. case args of
         [x, y] \<Rightarrow> (plus_val x y, s)
       | _ \<Rightarrow> (Inl (TypeError (wrong_arity ''usual_add'' [''x'', ''y''] (length args))), s))\<rparr>"

definition add_3 :: "(int, 's) target" where
  "add_3 = \<lparr>params = [''y''],
     body = (\<lambda>args s. case args of
         [y] \<Rightarrow> (plus_val (Data 3) y, s)
       | _ \<Rightarrow> (Inl (TypeError (wrong_arity ''add_3'' [''y''] (length args))), s))\<rparr>"

definition add_4 :: "(int, 's) target" where
  "add_4 = \<lparr>params = [''x'', ''y'', ''z'', ''w''],
     body = (\<lambda>args s. case args of
         [x, y, z, w] \<Rightarrow> (sum_vals x [y, z, w], s)
       | _ \<Rightarrow> (Inl (TypeError
             (wrong_arity ''add_4'' [''x'', ''y'', ''z'', ''w''] (length args))), s))\<rparr>"

definition currier :: "(int, 's) program" where
  "currier = [''usual_add'' \<mapsto> usual_add, ''add_3'' \<mapsto> add_3, ''add_4'' \<mapsto> add_4]"

text \<open>
  A target with a side effect, to observe how often a body runs: \<^verbatim>\<open>add_4\<close> that also
  counts its executions in the state.
\<close>

definition add_4_counting :: "(int, nat) target" where
  "add_4_counting = \<lparr>params = [''x'', ''y'', ''z'', ''w''],
     body = (\<lambda>args n. case args of
         [x, y, z, w] \<Rightarrow> (sum_vals x [y, z, w], Suc n)
       | _ \<Rightarrow> (Inl (TypeError
             (wrong_arity ''add_4'' [''x'', ''y'', ''z'', ''w''] (length args))), n))\<rparr>"

definition currier_counting :: "(int, nat) program" where
  "currier_counting = [''add_4'' \<mapsto> add_4_counting]"

subsection \<open>The wrapper that holds some bound arguments\<close>

text \<open>
  The closure each strategy has built once the arguments \<open>bs\<close> were supplied one per
  call. Strategy A (\<^verbatim>\<open>curry\<close>) nests one \<^verbatim>\<open>get_other_args\<close> per argument inside
  \<^verbatim>\<open>get_one_arg\<close>. Strategy B (\<^verbatim>\<open>curry_tudo\<close>, for a target with \<open>n\<close> parameters) starts
  from \<open>n - 1\<close> nested \<^verbatim>\<open>func_sem_ultimo\<close>; after the first argument it is a
  \<^verbatim>\<open>recebe_ultimo\<close> that holds the arguments and the layers still to unwrap.
\<close>

definition stage_A :: "'a val \<Rightarrow> 'a val list \<Rightarrow> 'a val" where
  "stage_A f bs = curry_py (foldl Get_other_args f bs)"

definition stage_B :: "nat \<Rightarrow> 'a val \<Rightarrow> 'a val list \<Rightarrow> 'a val" where
  "stage_B n f bs =
     (if bs = [] then curry_ultimo_loop (n - 1) f
      else Recebe_ultimo (curry_ultimo_loop (n - 1 - length bs) f) bs)"

section \<open>decoradorY\_pt.py: self-application\<close>

text \<open>
  The values of this module: a non-callable object (\<open>Const\<close>), a function written with
  \<^verbatim>\<open>def\<close> at top level (\<open>Named\<close>), and the two closures:
  \<^item> \<open>Func_auto_aplicada func\<close>: \<^verbatim>\<open>func_auto_aplicada(param)\<close> of \<^verbatim>\<open>auto_aplicador\<close>;
  \<^item> \<open>Nova_func func\<close>: \<^verbatim>\<open>nova_func(func_param, t)\<close> of \<^verbatim>\<open>auto_aplica_func_interna\<close>.
\<close>

datatype 'a obj =
    Const 'a
  | Named string
  | Func_auto_aplicada "'a obj"
  | Nova_func "'a obj"

text \<open>
  The functions decorated here call the function they are given. So a body also takes
  the means to call a value, \<open>invoke\<close> below at the depth that is left, and it may not
  return: \<open>None\<close> is a call that did not return within the depth allowed.
\<close>

type_synonym ('a, 's) outcome = "((exn + 'a obj) \<times> 's) option"

record ('a, 's) func =
  func_params :: "string list"
  func_body ::
    "('a obj \<Rightarrow> 'a obj list \<Rightarrow> 's \<Rightarrow> ('a, 's) outcome) \<Rightarrow> 'a obj list \<Rightarrow> 's \<Rightarrow> ('a, 's) outcome"

type_synonym ('a, 's) module = "string \<rightharpoonup> ('a, 's) func"

definition auto_aplicador :: "'a obj \<Rightarrow> 'a obj" where
  "auto_aplicador func = Func_auto_aplicada func"

definition auto_aplica_func_interna :: "'a obj \<Rightarrow> 'a obj" where
  "auto_aplica_func_interna func = Nova_func func"

definition decorador_y :: "'a obj \<Rightarrow> 'a obj" where
  "decorador_y func = auto_aplicador (auto_aplica_func_interna func)"

text \<open>
  \<open>invoke M k f args s\<close> is the call \<^verbatim>\<open>f(*args)\<close> in state \<open>s\<close>, with at most \<open>k\<close>
  nested calls. \<^verbatim>\<open>func_auto_aplicada(param)\<close> is \<^verbatim>\<open>func(func, param)\<close>;
  \<^verbatim>\<open>nova_func(func_param, t)\<close> is \<^verbatim>\<open>func(auto_aplicador(func_param), t)\<close>.
\<close>

primrec invoke ::
  "('a, 's) module \<Rightarrow> nat \<Rightarrow> 'a obj \<Rightarrow> 'a obj list \<Rightarrow> 's \<Rightarrow> ('a, 's) outcome" where
  "invoke M 0 f args s = None"
| "invoke M (Suc k) f args s =
     (case f of
        Const c \<Rightarrow> Some (Inl (TypeError Not_callable), s)
      | Named name \<Rightarrow>
          (case M name of
             None \<Rightarrow> Some (Inl (Raised ''NameError''), s)
           | Some d \<Rightarrow>
               if length args = length (func_params d)
               then func_body d (invoke M k) args s
               else Some (Inl (TypeError (wrong_arity name (func_params d) (length args))), s))
      | Func_auto_aplicada func \<Rightarrow>
          (case args of
             [param] \<Rightarrow> invoke M k func [func, param] s
           | _ \<Rightarrow> Some (Inl (TypeError
                 (wrong_arity ''func_auto_aplicada'' [''param''] (length args))), s))
      | Nova_func func \<Rightarrow>
          (case args of
             [func_param, t] \<Rightarrow> invoke M k func [auto_aplicador func_param, t] s
           | _ \<Rightarrow> Some (Inl (TypeError
                 (wrong_arity ''nova_func'' [''func_param'', ''t''] (length args))), s)))"

text \<open>
  \<^verbatim>\<open>fact(rec, n)\<close>: 1 if \<^verbatim>\<open>n == 0\<close>, else \<^verbatim>\<open>n * rec(n - 1)\<close>. Arithmetic on anything but a
  number raises \<^verbatim>\<open>TypeError\<close>.
\<close>

fun times_obj :: "int obj \<Rightarrow> int obj \<Rightarrow> exn + int obj" where
  "times_obj (Const a) (Const b) = Inr (Const (a * b))"
| "times_obj a b = Inl (unsupported ''*'')"

fun minus_obj :: "int obj \<Rightarrow> int obj \<Rightarrow> exn + int obj" where
  "minus_obj (Const a) (Const b) = Inr (Const (a - b))"
| "minus_obj a b = Inl (unsupported ''-'')"

definition fact_py :: "(int, 's) func" where
  "fact_py = \<lparr>func_params = [''rec'', ''n''],
     func_body = (\<lambda>call_value args s.
       case args of
         [rec, n] \<Rightarrow>
           if n = Const 0 then Some (Inr (Const 1), s)
           else (case minus_obj n (Const 1) of
                   Inl e \<Rightarrow> Some (Inl e, s)
                 | Inr n1 \<Rightarrow>
                     (case call_value rec [n1] s of
                        None \<Rightarrow> None
                      | Some (Inl e, s') \<Rightarrow> Some (Inl e, s')
                      | Some (Inr r, s') \<Rightarrow> Some (times_obj n r, s')))
       | _ \<Rightarrow> Some (Inl (TypeError (wrong_arity ''fact'' [''rec'', ''n''] (length args))), s))\<rparr>"

definition decoradorY :: "(int, 's) module" where
  "decoradorY = [''fact'' \<mapsto> fact_py]"

section \<open>How the wrappers step\<close>

lemma call_Def_ok:
  "P f = Some d \<Longrightarrow> length args = length (params d) \<Longrightarrow> call P (Def f) args s = body d args s"
  by simp

lemma call_Def_wrong_arity:
  "P f = Some d \<Longrightarrow> length args \<noteq> length (params d) \<Longrightarrow>
   call P (Def f) args s = (Inl (TypeError (wrong_arity f (params d) (length args))), s)"
  by simp

lemma call_fst_arg_curry:
  "call P (fst_arg_curry uncurried_func) args s = get_fst_arg uncurried_func args s"
  by (simp add: fst_arg_curry_def)

text \<open>
  The source's own check of \<^verbatim>\<open>fst_arg_curry\<close> applied twice (currier.py, line 244): the
  second argument reaches \<^verbatim>\<open>get_fst_arg\<close> together with the first.
\<close>

lemma fst_arg_curry_twice:
  "call_each P (fst_arg_curry (fst_arg_curry f)) [a, b] s =
     (Inl (TypeError (Takes_but_given ''get_fst_arg'' 1 2)), s)"
  by (simp add: fst_arg_curry_def get_fst_arg_def wrong_arity_def)

lemma call_bound: "call P (foldl Get_other_args g bs) args s = call P g (bs @ args) s"
  by (induction bs arbitrary: g) simp_all

lemma call_get_one_arg:
  "call P (Get_one_arg func) [arg] s =
     (case call P func [arg] s of
        (Inl (TypeError t), s') \<Rightarrow> (Inr (Get_one_arg (Get_other_args func arg)), s')
      | r \<Rightarrow> r)"
  by (simp add: get_fst_arg_def curry_py_def split: prod.splits sum.splits exn.splits)

lemma call_get_one_arg_arity:
  "length args \<noteq> 1 \<Longrightarrow>
   call P (Get_one_arg func) args s =
     (Inl (TypeError (wrong_arity ''get_one_arg'' [''arg''] (length args))), s)"
  by (cases args; cases "tl args") auto

lemma call_recebe_ultimo_arity:
  "length as \<noteq> 1 \<Longrightarrow>
   call P (Recebe_ultimo func args) as s =
     (Inl (TypeError (wrong_arity ''recebe_ultimo'' [''arg''] (length as))), s)"
  by (cases as; cases "tl as") auto

lemma stage_A_step:
  "call P (stage_A f bs) [v] s =
     (case call P f (bs @ [v]) s of
        (Inl (TypeError t), s') \<Rightarrow> (Inr (stage_A f (bs @ [v])), s')
      | r \<Rightarrow> r)"
  by (simp add: stage_A_def curry_py_def call_get_one_arg call_bound del: call.simps
      split: prod.splits sum.splits exn.splits)

lemma curry_ultimo_loop_Suc:
  "curry_ultimo_loop (Suc k) func = curry_ultimo (curry_ultimo_loop k func)"
  by (induction k arbitrary: func) simp_all

lemma curry_ultimo_loop_funpow: "curry_ultimo_loop k func = (curry_ultimo ^^ k) func"
  by (induction k arbitrary: func) (simp_all add: funpow_swap1)

lemma call_curry_ultimo_loop_Suc:
  "call P (curry_ultimo_loop (Suc m) g) args s =
     (Inr (Recebe_ultimo (curry_ultimo_loop m g) args), s)"
  by (simp only: curry_ultimo_loop_Suc curry_ultimo_def call.simps)

lemma stage_B_step:
  assumes "length bs < n"
  shows "call P (stage_B n f bs) [v] s =
     (if length bs + 1 = n then call P f (bs @ [v]) s
      else (Inr (stage_B n f (bs @ [v])), s))"
proof (cases "length bs + 1 = n")
  case True
  then have "n - 1 - length bs = 0" and "bs = [] \<Longrightarrow> n - 1 = 0"
    by auto
  then show ?thesis
    using True by (cases "bs = []") (simp_all add: stage_B_def)
next
  case False
  with assms obtain m where m: "n - 1 - length bs = Suc m"
    by (cases "n - 1 - length bs") auto
  then have m': "n - 1 - length (bs @ [v]) = m"
    by simp
  have "call P (stage_B n f bs) [v] s =
        call P (curry_ultimo_loop (Suc m) f) (bs @ [v]) s"
    using m by (cases "bs = []") (simp_all add: stage_B_def)
  also have "\<dots> = (Inr (Recebe_ultimo (curry_ultimo_loop m f) (bs @ [v])), s)"
    by (rule call_curry_ultimo_loop_Suc)
  also have "\<dots> = (Inr (stage_B n f (bs @ [v])), s)"
    using m' by (simp add: stage_B_def)
  finally show ?thesis
    using False by simp
qed

lemma call_each_snoc:
  "call_each P f (xs @ [v]) s =
     (case call_each P f xs s of
        (Inl e, s') \<Rightarrow> (Inl e, s')
      | (Inr g, s') \<Rightarrow> call P g [v] s')"
  by (induction xs arbitrary: f s) (auto split: prod.splits sum.splits)

lemma stage_A_reached:
  "P f = Some d \<Longrightarrow> length bs < length (params d) \<Longrightarrow>
   call_each P (curry_py (Def f)) bs s = (Inr (stage_A (Def f) bs), s)"
proof (induction bs rule: rev_induct)
  case Nil
  then show ?case by (simp add: stage_A_def)
next
  case (snoc v bs)
  then have "call_each P (curry_py (Def f)) bs s = (Inr (stage_A (Def f) bs), s)"
    by simp
  moreover have "call P (Def f) (bs @ [v]) s =
      (Inl (TypeError (wrong_arity f (params d) (length (bs @ [v])))), s)"
    using snoc.prems by (intro call_Def_wrong_arity) auto
  ultimately show ?case
    by (simp add: call_each_snoc stage_A_step del: call.simps)
qed

lemma stage_B_reached:
  "length bs < n \<Longrightarrow> call_each P (stage_B n f []) bs s = (Inr (stage_B n f bs), s)"
proof (induction bs rule: rev_induct)
  case Nil
  then show ?case by simp
next
  case (snoc v bs)
  then show ?case
    by (simp add: call_each_snoc stage_B_step del: call.simps)
qed

lemma curry_tudo_Def:
  assumes "P f = Some d"
  shows "curry_tudo P (Def f) = Inr (stage_B (length (params d)) (Def f) [])"
proof -
  have "nat (int (length (params d)) - 1) = length (params d) - 1"
    by linarith
  then show ?thesis
    using assms by (simp add: curry_tudo_def numero_de_parametros_def stage_B_def)
qed

lemma call_each_curry_py_full:
  assumes "P f = Some d" and "length vs = length (params d)" and "vs \<noteq> []"
  shows "call_each P (curry_py (Def f)) vs s =
     (case call P (Def f) vs s of
        (Inl (TypeError t), s') \<Rightarrow> (Inr (stage_A (Def f) vs), s')
      | r \<Rightarrow> r)"
proof -
  from assms(3) obtain bs v where vs: "vs = bs @ [v]"
    by (metis rev_exhaust)
  with assms have "call_each P (curry_py (Def f)) bs s = (Inr (stage_A (Def f) bs), s)"
    by (intro stage_A_reached) auto
  then show ?thesis
    unfolding vs by (simp add: call_each_snoc stage_A_step del: call.simps)
qed

lemma call_each_stage_B_full:
  assumes "length vs = n" and "vs \<noteq> []"
  shows "call_each P (stage_B n f []) vs s = call P f vs s"
proof -
  from assms(2) obtain bs v where vs: "vs = bs @ [v]"
    by (metis rev_exhaust)
  with assms have "call_each P (stage_B n f []) bs s = (Inr (stage_B n f bs), s)"
    by (intro stage_B_reached) auto
  then show ?thesis
    using assms(1) unfolding vs by (simp add: call_each_snoc stage_B_step del: call.simps)
qed

lemma unary_stage_A: "unary P (stage_A f bs)"
  by (simp add: unary_def stage_A_def curry_py_def)

lemma unary_stage_B: "bs \<noteq> [] \<Longrightarrow> unary P (stage_B n f bs)"
  by (simp add: unary_def stage_B_def)

lemma stage_B_first:
  "2 \<le> n \<Longrightarrow> stage_B n f [] = Func_sem_ultimo (curry_ultimo_loop (n - 2) f)"
proof -
  assume "2 \<le> n"
  then have "n - 1 = Suc (n - 2)"
    by simp
  then show ?thesis
    by (simp add: stage_B_def curry_ultimo_loop_Suc curry_ultimo_def del: curry_ultimo_loop.simps)
qed

lemma stage_B_first_unary:
  assumes "P f = Some d" and "0 < length (params d)"
  shows "unary P (stage_B (length (params d)) (Def f) []) = (length (params d) = 1)"
proof (cases "length (params d) = 1")
  case True
  then obtain p where "params d = [p]"
    by (cases "params d") auto
  then show ?thesis
    using assms(1) by (simp add: stage_B_def unary_def)
next
  case False
  with assms(2) have "2 \<le> length (params d)"
    by linarith
  then show ?thesis
    using False by (simp add: stage_B_first unary_def)
qed

lemma call_stage_A_arity:
  "length args \<noteq> 1 \<Longrightarrow>
   call P (stage_A f bs) args s =
     (Inl (TypeError (wrong_arity ''get_one_arg'' [''arg''] (length args))), s)"
  unfolding stage_A_def curry_py_def by (rule call_get_one_arg_arity)

lemma call_stage_B_arity:
  "bs \<noteq> [] \<Longrightarrow> length args \<noteq> 1 \<Longrightarrow>
   call P (stage_B n f bs) args s =
     (Inl (TypeError (wrong_arity ''recebe_ultimo'' [''arg''] (length args))), s)"
  by (simp add: stage_B_def call_recebe_ultimo_arity del: call.simps)

lemma call_stage_B_first:
  "2 \<le> n \<Longrightarrow>
   call P (stage_B n f []) args s =
     (Inr (Recebe_ultimo (curry_ultimo_loop (n - 2) f) args), s)"
  by (simp add: stage_B_first)

lemma call_stage_A_one:
  assumes "P f = Some d" and "length bs < length (params d)"
  shows "call P (stage_A (Def f) bs) [v] s =
     (if length bs + 1 = length (params d)
      then (case call P (Def f) (bs @ [v]) s of
              (Inl (TypeError t), s') \<Rightarrow> (Inr (stage_A (Def f) (bs @ [v])), s')
            | r \<Rightarrow> r)
      else (Inr (stage_A (Def f) (bs @ [v])), s))"
proof (cases "length bs + 1 = length (params d)")
  case True
  then show ?thesis
    by (simp add: stage_A_step del: call.simps)
next
  case False
  then have "length (bs @ [v]) \<noteq> length (params d)"
    by simp
  with assms(1) have "call P (Def f) (bs @ [v]) s =
      (Inl (TypeError (wrong_arity f (params d) (length (bs @ [v])))), s)"
    by (rule call_Def_wrong_arity)
  then show ?thesis
    using False by (simp add: stage_A_step del: call.simps)
qed

lemma wrong_arity_too_many:
  "2 \<le> m \<Longrightarrow> wrong_arity name [p] m = Takes_but_given name 1 m"
  by (simp add: wrong_arity_def)

lemma wrong_arity_none: "wrong_arity name [p] 0 = Missing name [p]"
  by (simp add: wrong_arity_def)

lemma curry_n_args_funpow:
  "curry_n_args (int n) func = (curry_ultimo ^^ (n - 1)) func"
proof -
  have "nat (int n - 1) = n - 1"
    by linarith
  then show ?thesis
    by (simp add: curry_n_args_def curry_ultimo_loop_funpow)
qed

section \<open>The claims about the curry decorators\<close>

text \<open>
  C1. For a target \<open>f\<close> of fixed arity at least 1 and arguments \<open>vs\<close>, as many as
  \<open>f\<close> has parameters, that are valid for \<open>f\<close> (the direct call \<^verbatim>\<open>f(v1, ..., vA)\<close> does not
  raise \<^verbatim>\<open>TypeError\<close>): supplying the arguments one per call to \<^verbatim>\<open>curry(f)\<close>
  (Strategy A) and to \<^verbatim>\<open>curry_tudo(f)\<close> (Strategy B) gives the outcome and the state of
  the direct call.
\<close>

theorem curry_same_as_direct_call:
  assumes "P f = Some d" and "length vs = length (params d)" and "vs \<noteq> []"
    and "call P (Def f) vs s = (r, s')" and "\<forall>t. r \<noteq> Inl (TypeError t)"
  shows "call_each P (curry_py (Def f)) vs s = (r, s') \<and>
    (\<exists>g. curry_tudo P (Def f) = Inr g \<and> call_each P g vs s = (r, s'))"
proof
  have "call_each P (curry_py (Def f)) vs s =
     (case call P (Def f) vs s of
        (Inl (TypeError t), s') \<Rightarrow> (Inr (stage_A (Def f) vs), s')
      | r \<Rightarrow> r)"
    using assms(1-3) by (rule call_each_curry_py_full)
  then show "call_each P (curry_py (Def f)) vs s = (r, s')"
    using assms(4,5) by (simp del: call.simps split: sum.splits exn.splits)
  have "call_each P (stage_B (length (params d)) (Def f) []) vs s = (r, s')"
    using assms(2-4) by (simp add: call_each_stage_B_full del: call.simps)
  moreover have "curry_tudo P (Def f) = Inr (stage_B (length (params d)) (Def f) [])"
    using assms(1) by (rule curry_tudo_Def)
  ultimately show "\<exists>g. curry_tudo P (Def f) = Inr g \<and> call_each P g vs s = (r, s')"
    by simp
qed

theorem curry_same_as_direct_call_witness:
  "call_each (currier :: (int, unit) program) (curry_py (Def ''add_4''))
     [Data 1, Data 2, Data 3, Data 4] () = (Inr (Data 10), ()) \<and>
   (\<exists>g. curry_tudo (currier :: (int, unit) program) (Def ''add_4'') = Inr g \<and>
      call_each currier g [Data 1, Data 2, Data 3, Data 4] () = (Inr (Data 10), ()))"
  using curry_same_as_direct_call [of currier "''add_4''" add_4
      "[Data 1, Data 2, Data 3, Data 4]" "()" "Inr (Data 10)" "()"]
  by (simp add: currier_def add_4_def)

text \<open>
  C2, as stated, fails. \<^verbatim>\<open>usual_add(1, usual_add)\<close> raises the \<^verbatim>\<open>TypeError\<close> of \<^verbatim>\<open>+\<close> on a
  number and a function: a failure of the fully applied target, of the wrong-value-type
  kind. \<^verbatim>\<open>curry(usual_add)(1)(usual_add)\<close> does not raise it: \<^verbatim>\<open>get_one_arg\<close> catches it
  and returns a new wrapper.
\<close>

theorem curry_py_intercepts_TypeError_of_target:
  "call (currier :: (int, unit) program) (Def ''usual_add'') [Data 1, Def ''usual_add''] () =
     (Inl (TypeError (Message ''unsupported operand type(s) for +'')), ()) \<and>
   call_each (currier :: (int, unit) program) (curry_py (Def ''usual_add''))
       [Data 1, Def ''usual_add''] () =
     (Inr (Get_one_arg (Get_other_args (Get_other_args (Def ''usual_add'') (Data 1))
        (Def ''usual_add''))), ())"
  by (simp add: currier_def usual_add_def curry_py_def get_fst_arg_def wrong_arity_def
      unsupported_def)

text \<open>
  C2, amended. When the fully applied target raises \<open>e\<close>, the Strategy A chain raises
  the same \<open>e\<close>, in the same state, if \<open>e\<close> is not a \<^verbatim>\<open>TypeError\<close>; if it is one, whatever
  its cause, the chain returns the wrapper that holds all the arguments. A stage called
  with no value or with several raises the \<^verbatim>\<open>TypeError\<close> of \<^verbatim>\<open>get_one_arg\<close> itself, which
  nothing catches. The Strategy B chain raises every \<open>e\<close> unchanged.
\<close>

theorem curry_propagates_failures_but_TypeError:
  assumes "P f = Some d" and "length vs = length (params d)" and "vs \<noteq> []"
    and "call P (Def f) vs s = (Inl e, s')" and "length args \<noteq> 1"
  shows "call_each P (curry_py (Def f)) vs s =
      (if is_TypeError e then (Inr (stage_A (Def f) vs), s') else (Inl e, s')) \<and>
    call P (stage_A (Def f) bs) args s =
      (Inl (TypeError (wrong_arity ''get_one_arg'' [''arg''] (length args))), s) \<and>
    (\<exists>g. curry_tudo P (Def f) = Inr g \<and> call_each P g vs s = (Inl e, s'))"
proof (intro conjI)
  have "call_each P (curry_py (Def f)) vs s =
     (case call P (Def f) vs s of
        (Inl (TypeError t), s') \<Rightarrow> (Inr (stage_A (Def f) vs), s')
      | r \<Rightarrow> r)"
    using assms(1-3) by (rule call_each_curry_py_full)
  then show "call_each P (curry_py (Def f)) vs s =
      (if is_TypeError e then (Inr (stage_A (Def f) vs), s') else (Inl e, s'))"
    using assms(4) by (cases e) (simp_all del: call.simps)
  show "call P (stage_A (Def f) bs) args s =
      (Inl (TypeError (wrong_arity ''get_one_arg'' [''arg''] (length args))), s)"
    using assms(5) by (rule call_stage_A_arity)
  have "call_each P (stage_B (length (params d)) (Def f) []) vs s = (Inl e, s')"
    using assms(2-4) by (simp add: call_each_stage_B_full del: call.simps)
  moreover have "curry_tudo P (Def f) = Inr (stage_B (length (params d)) (Def f) [])"
    using assms(1) by (rule curry_tudo_Def)
  ultimately show "\<exists>g. curry_tudo P (Def f) = Inr g \<and> call_each P g vs s = (Inl e, s')"
    by simp
qed

theorem curry_propagates_failures_but_TypeError_witness:
  "call_each [''div'' \<mapsto> \<lparr>params = [''x'', ''y''],
        body = (\<lambda>args s. (Inl (Raised ''ZeroDivisionError''), s))\<rparr>]
      (curry_py (Def ''div'')) [Data (1::int), Data 0] () =
      (Inl (Raised ''ZeroDivisionError''), ()) \<and>
   call [''div'' \<mapsto> \<lparr>params = [''x'', ''y''],
        body = (\<lambda>args s. (Inl (Raised ''ZeroDivisionError''), s))\<rparr>]
      (stage_A (Def ''div'') [Data (1::int)]) [Data 0, Data 0] () =
      (Inl (TypeError (Takes_but_given ''get_one_arg'' 1 2)), ())"
  using curry_propagates_failures_but_TypeError
    [of "[''div'' \<mapsto> \<lparr>params = [''x'', ''y''],
        body = (\<lambda>args s. (Inl (Raised ''ZeroDivisionError''), s))\<rparr>]"
      "''div''" "\<lparr>params = [''x'', ''y''],
        body = (\<lambda>args s. (Inl (Raised ''ZeroDivisionError''), s))\<rparr>"
      "[Data (1::int), Data 0]" "()" "Raised ''ZeroDivisionError''" "()"
      "[Data 0, Data 0]" "[Data 1]"]
  by (simp add: wrong_arity_def)

text \<open>
  C3, as stated, fails for Strategy B. What \<^verbatim>\<open>curry_tudo\<close> returns for the four-parameter
  \<^verbatim>\<open>add_4\<close> is a \<^verbatim>\<open>func_sem_ultimo(*args)\<close>: it is not unary, and a call with two values
  is accepted and returns a \<^verbatim>\<open>recebe_ultimo\<close> that holds both.
\<close>

theorem curry_tudo_first_stage_not_unary:
  "curry_tudo (currier :: (int, unit) program) (Def ''add_4'') =
     Inr (Func_sem_ultimo (Func_sem_ultimo (Func_sem_ultimo (Def ''add_4'')))) \<and>
   \<not> unary (currier :: (int, unit) program)
     (Func_sem_ultimo (Func_sem_ultimo (Func_sem_ultimo (Def ''add_4'')))) \<and>
   call (currier :: (int, unit) program)
     (Func_sem_ultimo (Func_sem_ultimo (Func_sem_ultimo (Def ''add_4''))))
     [Data 1, Data 2] () =
     (Inr (Recebe_ultimo (Func_sem_ultimo (Func_sem_ultimo (Def ''add_4'')))
        [Data 1, Data 2]), ())"
  by (simp add: curry_tudo_def numero_de_parametros_def currier_def add_4_def
      curry_ultimo_def unary_def numeral_3_eq_3)

text \<open>
  C3, amended. Under Strategy A every stage, the one returned at decoration time
  included, is the unary \<^verbatim>\<open>get_one_arg\<close> and rejects any call that does not supply exactly
  one value. Under Strategy B every stage reached after the first argument is the unary
  \<^verbatim>\<open>recebe_ultimo\<close> and rejects such calls too; the stage returned at decoration time is
  unary only when the target has one parameter (it is the target itself), and for two or
  more parameters it is \<^verbatim>\<open>func_sem_ultimo(*args)\<close>, which accepts any number of values.
\<close>

theorem stages_unary_after_first:
  assumes "P f = Some d" and "length bs < length (params d)" and "length args \<noteq> 1"
  shows "call_each P (curry_py (Def f)) bs s = (Inr (stage_A (Def f) bs), s) \<and>
    unary P (stage_A (Def f) bs) \<and>
    (\<exists>t. call P (stage_A (Def f) bs) args s = (Inl (TypeError t), s)) \<and>
    curry_tudo P (Def f) = Inr (stage_B (length (params d)) (Def f) []) \<and>
    unary P (stage_B (length (params d)) (Def f) []) = (length (params d) = 1) \<and>
    (2 \<le> length (params d) \<longrightarrow>
       call P (stage_B (length (params d)) (Def f) []) args s =
         (Inr (Recebe_ultimo (curry_ultimo_loop (length (params d) - 2) (Def f)) args), s)) \<and>
    (bs \<noteq> [] \<longrightarrow>
       call_each P (stage_B (length (params d)) (Def f) []) bs s =
         (Inr (stage_B (length (params d)) (Def f) bs), s) \<and>
       unary P (stage_B (length (params d)) (Def f) bs) \<and>
       (\<exists>t. call P (stage_B (length (params d)) (Def f) bs) args s = (Inl (TypeError t), s)))"
proof (intro conjI impI)
  show "call_each P (curry_py (Def f)) bs s = (Inr (stage_A (Def f) bs), s)"
    using assms(1,2) by (rule stage_A_reached)
  show "unary P (stage_A (Def f) bs)"
    by (rule unary_stage_A)
  show "\<exists>t. call P (stage_A (Def f) bs) args s = (Inl (TypeError t), s)"
    by (intro exI) (rule call_stage_A_arity [OF assms(3)])
  show "curry_tudo P (Def f) = Inr (stage_B (length (params d)) (Def f) [])"
    using assms(1) by (rule curry_tudo_Def)
  from assms(2) have "0 < length (params d)"
    by linarith
  with assms(1) show "unary P (stage_B (length (params d)) (Def f) []) = (length (params d) = 1)"
    by (rule stage_B_first_unary)
next
  assume "2 \<le> length (params d)"
  then show "call P (stage_B (length (params d)) (Def f) []) args s =
      (Inr (Recebe_ultimo (curry_ultimo_loop (length (params d) - 2) (Def f)) args), s)"
    by (rule call_stage_B_first)
next
  assume "bs \<noteq> []"
  show "call_each P (stage_B (length (params d)) (Def f) []) bs s =
      (Inr (stage_B (length (params d)) (Def f) bs), s)"
    using assms(2) by (rule stage_B_reached)
  show "unary P (stage_B (length (params d)) (Def f) bs)"
    using \<open>bs \<noteq> []\<close> by (rule unary_stage_B)
  show "\<exists>t. call P (stage_B (length (params d)) (Def f) bs) args s = (Inl (TypeError t), s)"
    by (intro exI) (rule call_stage_B_arity [OF \<open>bs \<noteq> []\<close> assms(3)])
qed

theorem stages_unary_after_first_witness:
  "call_each (currier :: (int, unit) program) (curry_py (Def ''add_4'')) [Data 1] () =
     (Inr (Get_one_arg (Get_other_args (Def ''add_4'') (Data 1))), ()) \<and>
   unary (currier :: (int, unit) program) (Get_one_arg (Get_other_args (Def ''add_4'') (Data 1))) \<and>
   (\<exists>t. call (currier :: (int, unit) program)
      (Get_one_arg (Get_other_args (Def ''add_4'') (Data 1))) [Data 5, Data 7] () =
      (Inl (TypeError t), ())) \<and>
   \<not> unary (currier :: (int, unit) program)
      (Func_sem_ultimo (Func_sem_ultimo (Func_sem_ultimo (Def ''add_4'')))) \<and>
   call (currier :: (int, unit) program)
      (Func_sem_ultimo (Func_sem_ultimo (Func_sem_ultimo (Def ''add_4''))))
      [Data 5, Data 7] () =
     (Inr (Recebe_ultimo (Func_sem_ultimo (Func_sem_ultimo (Def ''add_4'')))
        [Data 5, Data 7]), ()) \<and>
   call_each (currier :: (int, unit) program)
      (Func_sem_ultimo (Func_sem_ultimo (Func_sem_ultimo (Def ''add_4'')))) [Data 1] () =
     (Inr (Recebe_ultimo (Func_sem_ultimo (Func_sem_ultimo (Def ''add_4''))) [Data 1]), ()) \<and>
   unary (currier :: (int, unit) program)
      (Recebe_ultimo (Func_sem_ultimo (Func_sem_ultimo (Def ''add_4''))) [Data 1]) \<and>
   (\<exists>t. call (currier :: (int, unit) program)
      (Recebe_ultimo (Func_sem_ultimo (Func_sem_ultimo (Def ''add_4''))) [Data 1])
      [Data 5, Data 7] () = (Inl (TypeError t), ()))"
  using stages_unary_after_first [of "currier :: (int, unit) program" "''add_4''" add_4
      "[Data 1]" "[Data 5, Data 7]" "()"]
  by (simp add: currier_def add_4_def stage_A_def stage_B_def curry_py_def curry_ultimo_def
      numeral_2_eq_2 numeral_3_eq_3 del: call.simps call_each.simps)

text \<open>
  C4, as stated, fails for Strategy A. The wrapper \<^verbatim>\<open>curry(usual_add)(1)\<close> holds one of the
  two arguments. Called with the one value \<^verbatim>\<open>usual_add\<close>, it does not yield what the target
  yields, the \<^verbatim>\<open>TypeError\<close> of \<^verbatim>\<open>1 + usual_add\<close>, but a wrapper that holds both arguments.
\<close>

theorem final_call_may_return_wrapper:
  "call_each (currier :: (int, unit) program) (curry_py (Def ''usual_add'')) [Data 1] () =
     (Inr (Get_one_arg (Get_other_args (Def ''usual_add'') (Data 1))), ()) \<and>
   call (currier :: (int, unit) program)
     (Get_one_arg (Get_other_args (Def ''usual_add'') (Data 1))) [Def ''usual_add''] () =
     (Inr (Get_one_arg (Get_other_args (Get_other_args (Def ''usual_add'') (Data 1))
        (Def ''usual_add''))), ()) \<and>
   call (currier :: (int, unit) program) (Def ''usual_add'') [Data 1, Def ''usual_add''] () =
     (Inl (TypeError (Message ''unsupported operand type(s) for +'')), ())"
  by (simp add: currier_def usual_add_def curry_py_def get_fst_arg_def wrong_arity_def
      unsupported_def)

text \<open>
  C4, amended. For a target with \<open>A\<close> parameters and \<open>k < A\<close> arguments \<open>bs\<close> supplied
  one per call, each strategy has reached its wrapper that holds \<open>bs\<close>. Calling that
  wrapper with one value \<open>v\<close> gives, if \<open>k + 1 < A\<close>, the wrapper that holds \<open>bs @ [v]\<close>,
  in the same state. If \<open>k + 1 = A\<close>, Strategy B gives exactly what the target gives on
  \<open>bs @ [v]\<close>; Strategy A gives it too unless the target raises a \<^verbatim>\<open>TypeError\<close>, and then
  returns the wrapper that holds all \<open>A\<close> arguments. Every wrapper that holds at least one
  argument is unary.
\<close>

theorem wrapper_chain_step:
  assumes "P f = Some d" and "length bs < length (params d)"
  shows "call_each P (curry_py (Def f)) bs s = (Inr (stage_A (Def f) bs), s) \<and>
    call P (stage_A (Def f) bs) [v] s =
      (if length bs + 1 = length (params d)
       then (case call P (Def f) (bs @ [v]) s of
               (Inl (TypeError t), s') \<Rightarrow> (Inr (stage_A (Def f) (bs @ [v])), s')
             | r \<Rightarrow> r)
       else (Inr (stage_A (Def f) (bs @ [v])), s)) \<and>
    curry_tudo P (Def f) = Inr (stage_B (length (params d)) (Def f) []) \<and>
    call_each P (stage_B (length (params d)) (Def f) []) bs s =
      (Inr (stage_B (length (params d)) (Def f) bs), s) \<and>
    call P (stage_B (length (params d)) (Def f) bs) [v] s =
      (if length bs + 1 = length (params d) then call P (Def f) (bs @ [v]) s
       else (Inr (stage_B (length (params d)) (Def f) (bs @ [v])), s)) \<and>
    (bs \<noteq> [] \<longrightarrow>
       unary P (stage_A (Def f) bs) \<and> unary P (stage_B (length (params d)) (Def f) bs))"
proof (intro conjI impI)
  show "call_each P (curry_py (Def f)) bs s = (Inr (stage_A (Def f) bs), s)"
    using assms by (rule stage_A_reached)
  show "call P (stage_A (Def f) bs) [v] s =
      (if length bs + 1 = length (params d)
       then (case call P (Def f) (bs @ [v]) s of
               (Inl (TypeError t), s') \<Rightarrow> (Inr (stage_A (Def f) (bs @ [v])), s')
             | r \<Rightarrow> r)
       else (Inr (stage_A (Def f) (bs @ [v])), s))"
    using assms by (rule call_stage_A_one)
  show "curry_tudo P (Def f) = Inr (stage_B (length (params d)) (Def f) [])"
    using assms(1) by (rule curry_tudo_Def)
  show "call_each P (stage_B (length (params d)) (Def f) []) bs s =
      (Inr (stage_B (length (params d)) (Def f) bs), s)"
    using assms(2) by (rule stage_B_reached)
  show "call P (stage_B (length (params d)) (Def f) bs) [v] s =
      (if length bs + 1 = length (params d) then call P (Def f) (bs @ [v]) s
       else (Inr (stage_B (length (params d)) (Def f) (bs @ [v])), s))"
    using assms(2) by (rule stage_B_step)
  show "unary P (stage_A (Def f) bs)"
    by (rule unary_stage_A)
next
  assume "bs \<noteq> []"
  then show "unary P (stage_B (length (params d)) (Def f) bs)"
    by (rule unary_stage_B)
qed

theorem wrapper_chain_step_witness:
  "call (currier :: (int, unit) program) (stage_A (Def ''add_4'') [Data 1, Data 2]) [Data 3] () =
     (Inr (stage_A (Def ''add_4'') [Data 1, Data 2, Data 3]), ()) \<and>
   call (currier :: (int, unit) program) (stage_B 4 (Def ''add_4'') [Data 1, Data 2]) [Data 3] () =
     (Inr (stage_B 4 (Def ''add_4'') [Data 1, Data 2, Data 3]), ()) \<and>
   unary (currier :: (int, unit) program) (stage_A (Def ''add_4'') [Data 1, Data 2]) \<and>
   unary (currier :: (int, unit) program) (stage_B 4 (Def ''add_4'') [Data 1, Data 2]) \<and>
   call (currier :: (int, unit) program)
     (stage_A (Def ''add_4'') [Data 1, Data 2, Data 3]) [Data 4] () = (Inr (Data 10), ()) \<and>
   call (currier :: (int, unit) program)
     (stage_B 4 (Def ''add_4'') [Data 1, Data 2, Data 3]) [Data 4] () = (Inr (Data 10), ())"
  using wrapper_chain_step [of "currier :: (int, unit) program" "''add_4''" add_4
      "[Data 1, Data 2]" "()" "Data 3"]
    wrapper_chain_step [of "currier :: (int, unit) program" "''add_4''" add_4
      "[Data 1, Data 2, Data 3]" "()" "Data 4"]
  by (simp add: currier_def add_4_def stage_A_def stage_B_def curry_py_def curry_ultimo_def
      get_fst_arg_def wrong_arity_def eval_nat_numeral)

text \<open>
  C5. For a target with \<open>A\<close> parameters, the stage reached after \<open>k\<close> arguments supplied
  one per call, \<open>1 \<le> k < A\<close>, called with two or more values, raises the \<^verbatim>\<open>TypeError\<close>
  "takes 1 positional argument but m were given" of \<^verbatim>\<open>get_one_arg\<close> (Strategy A) or of
  \<^verbatim>\<open>recebe_ultimo\<close> (Strategy B), in the same state: the target is not called and no value
  is accepted or dropped.
\<close>

theorem two_values_to_unary_stage_raise:
  assumes "P f = Some d" and "bs \<noteq> []" and "length bs < length (params d)"
    and "2 \<le> length args"
  shows "call_each P (curry_py (Def f)) bs s = (Inr (stage_A (Def f) bs), s) \<and>
    call P (stage_A (Def f) bs) args s =
      (Inl (TypeError (Takes_but_given ''get_one_arg'' 1 (length args))), s) \<and>
    curry_tudo P (Def f) = Inr (stage_B (length (params d)) (Def f) []) \<and>
    call_each P (stage_B (length (params d)) (Def f) []) bs s =
      (Inr (stage_B (length (params d)) (Def f) bs), s) \<and>
    call P (stage_B (length (params d)) (Def f) bs) args s =
      (Inl (TypeError (Takes_but_given ''recebe_ultimo'' 1 (length args))), s)"
proof (intro conjI)
  from assms(4) have args: "length args \<noteq> 1"
    by simp
  show "call_each P (curry_py (Def f)) bs s = (Inr (stage_A (Def f) bs), s)"
    using assms(1,3) by (rule stage_A_reached)
  show "call P (stage_A (Def f) bs) args s =
      (Inl (TypeError (Takes_but_given ''get_one_arg'' 1 (length args))), s)"
    using call_stage_A_arity [OF args, of P "Def f" bs s] assms(4)
    by (simp add: wrong_arity_too_many del: call.simps)
  show "curry_tudo P (Def f) = Inr (stage_B (length (params d)) (Def f) [])"
    using assms(1) by (rule curry_tudo_Def)
  show "call_each P (stage_B (length (params d)) (Def f) []) bs s =
      (Inr (stage_B (length (params d)) (Def f) bs), s)"
    using assms(3) by (rule stage_B_reached)
  show "call P (stage_B (length (params d)) (Def f) bs) args s =
      (Inl (TypeError (Takes_but_given ''recebe_ultimo'' 1 (length args))), s)"
    using call_stage_B_arity [OF assms(2) args, of P "length (params d)" "Def f" s] assms(4)
    by (simp add: wrong_arity_too_many del: call.simps)
qed

theorem two_values_to_unary_stage_raise_witness:
  "call_each (currier :: (int, unit) program) (curry_py (Def ''add_4'')) [Data 1, Data 2] () =
     (Inr (stage_A (Def ''add_4'') [Data 1, Data 2]), ()) \<and>
   call (currier :: (int, unit) program) (stage_A (Def ''add_4'') [Data 1, Data 2])
     [Data 3, Data 4] () = (Inl (TypeError (Takes_but_given ''get_one_arg'' 1 2)), ()) \<and>
   curry_tudo (currier :: (int, unit) program) (Def ''add_4'') =
     Inr (stage_B 4 (Def ''add_4'') []) \<and>
   call_each (currier :: (int, unit) program) (stage_B 4 (Def ''add_4'') [])
     [Data 1, Data 2] () = (Inr (stage_B 4 (Def ''add_4'') [Data 1, Data 2]), ()) \<and>
   call (currier :: (int, unit) program) (stage_B 4 (Def ''add_4'') [Data 1, Data 2])
     [Data 3, Data 4] () = (Inl (TypeError (Takes_but_given ''recebe_ultimo'' 1 2)), ())"
  using two_values_to_unary_stage_raise [of "currier :: (int, unit) program" "''add_4''" add_4
      "[Data 1, Data 2]" "[Data 3, Data 4]" "()"]
  by (simp add: currier_def add_4_def eval_nat_numeral del: call.simps call_each.simps)

text \<open>
  C6, as stated, fails for Strategy B. What \<^verbatim>\<open>curry_tudo\<close> returns for the four-parameter
  \<^verbatim>\<open>add_4\<close>, called with no value, raises nothing: it returns a \<^verbatim>\<open>recebe_ultimo\<close> that
  holds no argument.
\<close>

theorem curry_tudo_first_stage_takes_no_value:
  "curry_tudo (currier :: (int, unit) program) (Def ''add_4'') =
     Inr (Func_sem_ultimo (Func_sem_ultimo (Func_sem_ultimo (Def ''add_4'')))) \<and>
   call (currier :: (int, unit) program)
     (Func_sem_ultimo (Func_sem_ultimo (Func_sem_ultimo (Def ''add_4'')))) [] () =
     (Inr (Recebe_ultimo (Func_sem_ultimo (Func_sem_ultimo (Def ''add_4''))) []), ())"
  by (simp add: curry_tudo_def numero_de_parametros_def currier_def add_4_def
      curry_ultimo_def numeral_3_eq_3)

text \<open>
  C6, amended. Under Strategy A every stage called with no value raises
  "\<^verbatim>\<open>get_one_arg() missing 1 required positional argument: 'arg'\<close>". Under Strategy B every
  stage reached after the first argument raises the same for \<^verbatim>\<open>recebe_ultimo\<close>. The
  callable \<^verbatim>\<open>curry_tudo\<close> returns, called with no value, raises the missing-argument
  error of the target itself when the target has one parameter, and otherwise returns a
  \<^verbatim>\<open>recebe_ultimo\<close> that holds no argument.
\<close>

theorem no_value_raises_except_first_stage_B:
  assumes "P f = Some d" and "length bs < length (params d)"
  shows "call_each P (curry_py (Def f)) bs s = (Inr (stage_A (Def f) bs), s) \<and>
    call P (stage_A (Def f) bs) [] s =
      (Inl (TypeError (Missing ''get_one_arg'' [''arg''])), s) \<and>
    curry_tudo P (Def f) = Inr (stage_B (length (params d)) (Def f) []) \<and>
    call_each P (stage_B (length (params d)) (Def f) []) bs s =
      (Inr (stage_B (length (params d)) (Def f) bs), s) \<and>
    (bs \<noteq> [] \<longrightarrow>
       call P (stage_B (length (params d)) (Def f) bs) [] s =
         (Inl (TypeError (Missing ''recebe_ultimo'' [''arg''])), s)) \<and>
    call P (stage_B (length (params d)) (Def f) []) [] s =
      (if length (params d) = 1 then (Inl (TypeError (Missing f (params d))), s)
       else (Inr (Recebe_ultimo (curry_ultimo_loop (length (params d) - 2) (Def f)) []), s))"
proof (intro conjI impI)
  show "call_each P (curry_py (Def f)) bs s = (Inr (stage_A (Def f) bs), s)"
    using assms by (rule stage_A_reached)
  show "call P (stage_A (Def f) bs) [] s =
      (Inl (TypeError (Missing ''get_one_arg'' [''arg''])), s)"
    using call_stage_A_arity [of "[]" P "Def f" bs s]
    by (simp add: wrong_arity_none del: call.simps)
  show "curry_tudo P (Def f) = Inr (stage_B (length (params d)) (Def f) [])"
    using assms(1) by (rule curry_tudo_Def)
  show "call_each P (stage_B (length (params d)) (Def f) []) bs s =
      (Inr (stage_B (length (params d)) (Def f) bs), s)"
    using assms(2) by (rule stage_B_reached)
  show "call P (stage_B (length (params d)) (Def f) []) [] s =
      (if length (params d) = 1 then (Inl (TypeError (Missing f (params d))), s)
       else (Inr (Recebe_ultimo (curry_ultimo_loop (length (params d) - 2) (Def f)) []), s))"
  proof (cases "length (params d) = 1")
    case True
    then show ?thesis
      using assms(1) by (simp add: stage_B_def wrong_arity_def)
  next
    case False
    with assms(2) have "2 \<le> length (params d)"
      by linarith
    then show ?thesis
      using False by (simp add: call_stage_B_first del: call.simps)
  qed
next
  assume "bs \<noteq> []"
  then show "call P (stage_B (length (params d)) (Def f) bs) [] s =
      (Inl (TypeError (Missing ''recebe_ultimo'' [''arg''])), s)"
    using call_stage_B_arity [of bs "[]" P "length (params d)" "Def f" s]
    by (simp add: wrong_arity_none del: call.simps)
qed

theorem no_value_raises_except_first_stage_B_witness:
  "call_each (currier :: (int, unit) program) (curry_py (Def ''add_4'')) [Data 1, Data 2] () =
     (Inr (stage_A (Def ''add_4'') [Data 1, Data 2]), ()) \<and>
   call (currier :: (int, unit) program) (stage_A (Def ''add_4'') [Data 1, Data 2]) [] () =
     (Inl (TypeError (Missing ''get_one_arg'' [''arg''])), ()) \<and>
   call_each (currier :: (int, unit) program) (stage_B 4 (Def ''add_4'') [])
     [Data 1, Data 2] () = (Inr (stage_B 4 (Def ''add_4'') [Data 1, Data 2]), ()) \<and>
   call (currier :: (int, unit) program) (stage_B 4 (Def ''add_4'') [Data 1, Data 2]) [] () =
     (Inl (TypeError (Missing ''recebe_ultimo'' [''arg''])), ())"
  using no_value_raises_except_first_stage_B [of "currier :: (int, unit) program" "''add_4''"
      add_4 "[Data 1, Data 2]" "()"]
  by (simp add: currier_def add_4_def eval_nat_numeral del: call.simps call_each.simps)

text \<open>
  C7. For a target with \<open>A\<close> parameters, \<^verbatim>\<open>curry_tudo\<close> applies \<^verbatim>\<open>curry_ultimo\<close> exactly
  \<open>A - 1\<close> times, as \<^verbatim>\<open>curry_n_args(A, func)\<close> does. For \<open>A = 1\<close> that is no application:
  \<^verbatim>\<open>curry_tudo(f)\<close> is \<open>f\<close> itself. The same holds for any callable whose signature has one
  parameter, so decorating a curried function again changes nothing.
\<close>

theorem curry_tudo_applies_curry_ultimo:
  assumes "P f = Some d"
  shows "curry_tudo P (Def f) = Inr ((curry_ultimo ^^ (length (params d) - 1)) (Def f)) \<and>
    curry_tudo P (Def f) = Inr (curry_n_args (int (length (params d))) (Def f)) \<and>
    (length (params d) = 1 \<longrightarrow> curry_tudo P (Def f) = Inr (Def f)) \<and>
    (numero_de_parametros P func = Inr 1 \<longrightarrow> curry_tudo P func = Inr func)"
proof -
  have "curry_tudo P (Def f) = Inr (curry_n_args (int (length (params d))) (Def f))"
    using assms by (simp add: curry_tudo_def numero_de_parametros_def curry_n_args_def)
  moreover have "numero_de_parametros P func = Inr 1 \<longrightarrow> curry_tudo P func = Inr func"
    by (simp add: curry_tudo_def)
  ultimately show ?thesis
    by (simp add: curry_n_args_funpow)
qed

theorem curry_tudo_applies_curry_ultimo_witness:
  "curry_tudo (currier :: (int, unit) program) (Def ''add_3'') = Inr (Def ''add_3'') \<and>
   curry_tudo (currier :: (int, unit) program) (Def ''add_4'') =
     Inr (curry_ultimo (curry_ultimo (curry_ultimo (Def ''add_4'')))) \<and>
   curry_tudo (currier :: (int, unit) program)
     (curry_ultimo (curry_ultimo (curry_ultimo (Def ''add_4'')))) =
     Inr (curry_ultimo (curry_ultimo (curry_ultimo (Def ''add_4''))))"
  using curry_tudo_applies_curry_ultimo [of "currier :: (int, unit) program" "''add_3''" add_3
      "Def ''add_3''"]
    curry_tudo_applies_curry_ultimo [of "currier :: (int, unit) program" "''add_4''" add_4
      "curry_ultimo (curry_ultimo (curry_ultimo (Def ''add_4'')))"]
  by (simp add: currier_def add_3_def add_4_def eval_nat_numeral numero_de_parametros_def
      curry_ultimo_def)

text \<open>
  C9. For a target with \<open>A \<ge> 1\<close> parameters and \<open>A\<close> arguments \<open>vs\<close> supplied one per call,
  under either strategy: after any \<open>k < A\<close> of them the state is the initial one (no
  body has run), and after all of them the state is the one a single run of the target's
  body on \<open>vs\<close> leaves from the initial state. The body is arbitrary, so whatever effect
  it has is performed exactly once.
\<close>

theorem target_body_runs_once:
  assumes "P f = Some d" and "length vs = length (params d)" and "k < length vs"
  shows "snd (call_each P (curry_py (Def f)) (take k vs) s) = s \<and>
    snd (call_each P (curry_py (Def f)) vs s) = snd (body d vs s) \<and>
    curry_tudo P (Def f) = Inr (stage_B (length vs) (Def f) []) \<and>
    snd (call_each P (stage_B (length vs) (Def f) []) (take k vs) s) = s \<and>
    snd (call_each P (stage_B (length vs) (Def f) []) vs s) = snd (body d vs s)"
proof (intro conjI)
  from assms(3) have vs: "vs \<noteq> []"
    by auto
  from assms(2,3) have k: "length (take k vs) < length (params d)"
    by simp
  have direct: "call P (Def f) vs s = body d vs s"
    using assms(1,2) by (rule call_Def_ok)
  have "call_each P (curry_py (Def f)) (take k vs) s = (Inr (stage_A (Def f) (take k vs)), s)"
    using assms(1) k by (rule stage_A_reached)
  then show "snd (call_each P (curry_py (Def f)) (take k vs) s) = s"
    by simp
  have "call_each P (curry_py (Def f)) vs s =
     (case call P (Def f) vs s of
        (Inl (TypeError t), s') \<Rightarrow> (Inr (stage_A (Def f) vs), s')
      | r \<Rightarrow> r)"
    using assms(1,2) vs by (rule call_each_curry_py_full)
  then show "snd (call_each P (curry_py (Def f)) vs s) = snd (body d vs s)"
    unfolding direct by (simp split: prod.splits sum.splits exn.splits)
  show "curry_tudo P (Def f) = Inr (stage_B (length vs) (Def f) [])"
    using curry_tudo_Def [of P f d] assms(1,2) by simp
  have "call_each P (stage_B (length vs) (Def f) []) (take k vs) s =
      (Inr (stage_B (length vs) (Def f) (take k vs)), s)"
    using assms(3) by (intro stage_B_reached) simp
  then show "snd (call_each P (stage_B (length vs) (Def f) []) (take k vs) s) = s"
    by simp
  have "call_each P (stage_B (length vs) (Def f) []) vs s = call P (Def f) vs s"
    using vs by (intro call_each_stage_B_full) simp_all
  then show "snd (call_each P (stage_B (length vs) (Def f) []) vs s) = snd (body d vs s)"
    unfolding direct by simp
qed

theorem target_body_runs_once_witness:
  "snd (call_each currier_counting (curry_py (Def ''add_4'')) [Data 1, Data 2, Data 3] 0) = 0 \<and>
   call_each currier_counting (curry_py (Def ''add_4'')) [Data 1, Data 2, Data 3, Data 4] 0 =
     (Inr (Data 10), 1) \<and>
   curry_tudo currier_counting (Def ''add_4'') = Inr (stage_B 4 (Def ''add_4'') []) \<and>
   snd (call_each currier_counting (stage_B 4 (Def ''add_4'') []) [Data 1, Data 2, Data 3] 0) = 0 \<and>
   call_each currier_counting (stage_B 4 (Def ''add_4'') []) [Data 1, Data 2, Data 3, Data 4] 0 =
     (Inr (Data 10), 1)"
  using target_body_runs_once [of currier_counting "''add_4''" add_4_counting
      "[Data 1, Data 2, Data 3, Data 4]" 3 0]
  by (simp add: currier_counting_def add_4_counting_def curry_py_def get_fst_arg_def
      wrong_arity_def stage_B_def curry_ultimo_def eval_nat_numeral)

section \<open>The claims about the Y decorator\<close>

lemma invoke_auto_aplicador:
  "invoke M (Suc k) (auto_aplicador g) [x] s = invoke M k g [g, x] s"
  by (simp add: auto_aplicador_def)

lemma invoke_auto_aplica_func_interna:
  "invoke M (Suc k) (auto_aplica_func_interna F) [g, t] s =
   invoke M k F [auto_aplicador g, t] s"
  by (simp add: auto_aplica_func_interna_def)

lemma invoke_decorador_y:
  "invoke M (Suc (Suc k)) (decorador_y F) [t] s = invoke M k F [decorador_y F, t] s"
  unfolding decorador_y_def
  by (simp only: invoke_auto_aplicador invoke_auto_aplica_func_interna)

lemma invoke_decorador_y_arity:
  "length args \<noteq> 1 \<Longrightarrow>
   invoke M (Suc k) (decorador_y F) args s =
     Some (Inl (TypeError (wrong_arity ''func_auto_aplicada'' [''param''] (length args))), s)"
  by (cases args; cases "tl args") (auto simp add: decorador_y_def auto_aplicador_def)

lemma invoke_fact:
  "invoke decoradorY (Suc (Suc (Suc j))) (decorador_y (Named ''fact'')) [n] s =
   func_body fact_py (invoke decoradorY j) [decorador_y (Named ''fact''), n] s"
  by (simp only: invoke_decorador_y) (simp add: decoradorY_def fact_py_def)

lemma fact_py_zero:
  "func_body fact_py c [rec, Const 0] s = Some (Inr (Const 1), s)"
  by (simp add: fact_py_def)

lemma fact_py_Suc:
  "c rec [Const (int n)] s = Some (Inr (Const r), s') \<Longrightarrow>
   func_body fact_py c [rec, Const (int (Suc n))] s = Some (Inr (Const (int (Suc n) * r)), s')"
  by (simp add: fact_py_def)

lemma decorador_y_fact:
  "3 * (n + 1) \<le> k \<Longrightarrow>
   invoke decoradorY k (decorador_y (Named ''fact'')) [Const (int n)] s =
     Some (Inr (Const (int (fact n))), s)"
proof (induction n arbitrary: k)
  case 0
  then have k: "k = Suc (Suc (Suc (k - 3)))"
    by simp
  show ?case
    by (subst k) (simp only: invoke_fact fact_py_zero fact_0 int_ops)
next
  case (Suc n)
  then have k: "k = Suc (Suc (Suc (k - 3)))" and "3 * (n + 1) \<le> k - 3"
    by simp_all
  then have "invoke decoradorY (k - 3) (decorador_y (Named ''fact'')) [Const (int n)] s =
      Some (Inr (Const (int (fact n))), s)"
    using Suc.IH by blast
  then have "func_body fact_py (invoke decoradorY (k - 3))
      [decorador_y (Named ''fact''), Const (int (Suc n))] s =
      Some (Inr (Const (int (Suc n) * int (fact n))), s)"
    by (rule fact_py_Suc)
  then show ?case
    by (subst k) (simp add: invoke_fact algebra_simps del: invoke.simps)
qed

text \<open>
  C8. \<^verbatim>\<open>decorador_y(fact)\<close>, where the body of \<^verbatim>\<open>fact(rec, n)\<close> neither names itself nor
  loops, is a unary function (a call with any other number of values raises the
  \<^verbatim>\<open>TypeError\<close> of \<^verbatim>\<open>func_auto_aplicada\<close>) that returns \<open>n!\<close> for every natural number
  \<open>n\<close>: the call returns as soon as \<open>3 * (n + 1)\<close> nested calls are allowed, three for each
  of the \<open>n + 1\<close> rounds, and leaves the state as it was. In particular
  \<^verbatim>\<open>fact(5) == 120\<close>.
\<close>

theorem decorador_y_fact_computes_factorial:
  assumes "3 * (n + 1) \<le> k" and "length args \<noteq> 1"
  shows "invoke decoradorY k (decorador_y (Named ''fact'')) [Const (int n)] s =
      Some (Inr (Const (int (fact n))), s) \<and>
    invoke decoradorY k (decorador_y (Named ''fact'')) args s =
      Some (Inl (TypeError (wrong_arity ''func_auto_aplicada'' [''param''] (length args))), s)"
proof
  show "invoke decoradorY k (decorador_y (Named ''fact'')) [Const (int n)] s =
      Some (Inr (Const (int (fact n))), s)"
    using assms(1) by (rule decorador_y_fact)
  from assms(1) have "k = Suc (k - 1)"
    by simp
  then show "invoke decoradorY k (decorador_y (Named ''fact'')) args s =
      Some (Inl (TypeError (wrong_arity ''func_auto_aplicada'' [''param''] (length args))), s)"
    using invoke_decorador_y_arity [OF assms(2)] by metis
qed

theorem decorador_y_fact_computes_factorial_witness:
  "invoke (decoradorY :: (int, unit) module) 18 (decorador_y (Named ''fact'')) [Const 5] () =
     Some (Inr (Const 120), ()) \<and>
   invoke (decoradorY :: (int, unit) module) 18 (decorador_y (Named ''fact'')) [] () =
     Some (Inl (TypeError (Missing ''func_auto_aplicada'' [''param''])), ())"
  using decorador_y_fact_computes_factorial [of 5 18 "[]" "()"]
  by (simp add: wrong_arity_def fact_numeral del: invoke.simps)

text \<open>
  C10. \<^verbatim>\<open>auto_aplicador(g)(x)\<close> is \<^verbatim>\<open>g(g, x)\<close>, one call deeper;
  \<^verbatim>\<open>auto_aplica_func_interna(F)(g, t)\<close> is \<^verbatim>\<open>F(auto_aplicador(g), t)\<close>, one call deeper; so
  \<^verbatim>\<open>decorador_y(F)(t)\<close> is \<^verbatim>\<open>F(r, t)\<close>, two calls deeper, where
  \<open>r = auto_aplicador (auto_aplica_func_interna F)\<close> behaves on every \<open>u\<close>, at every depth
  and in every state, as \<^verbatim>\<open>decorador_y(F)\<close> does. Whatever the depth allowed,
  \<^verbatim>\<open>decorador_y(F)(t)\<close> returns a given outcome exactly when \<^verbatim>\<open>F(decorador_y(F), t)\<close>
  returns it.
\<close>

theorem decorador_y_unfolds:
  "invoke M (Suc k) (auto_aplicador g) [x] s = invoke M k g [g, x] s \<and>
   invoke M (Suc k) (auto_aplica_func_interna F) [g, t] s =
     invoke M k F [auto_aplicador g, t] s \<and>
   invoke M (Suc (Suc k)) (decorador_y F) [t] s =
     invoke M k F [auto_aplicador (auto_aplica_func_interna F), t] s \<and>
   invoke M j (auto_aplicador (auto_aplica_func_interna F)) [u] s' =
     invoke M j (decorador_y F) [u] s' \<and>
   ((\<exists>i. invoke M i (decorador_y F) [t] s = Some out) =
    (\<exists>i. invoke M i F [decorador_y F, t] s = Some out))"
proof (intro conjI)
  show "invoke M (Suc k) (auto_aplicador g) [x] s = invoke M k g [g, x] s"
    by (rule invoke_auto_aplicador)
  show "invoke M (Suc k) (auto_aplica_func_interna F) [g, t] s =
      invoke M k F [auto_aplicador g, t] s"
    by (rule invoke_auto_aplica_func_interna)
  show "invoke M (Suc (Suc k)) (decorador_y F) [t] s =
      invoke M k F [auto_aplicador (auto_aplica_func_interna F), t] s"
    using invoke_decorador_y [of M k F t s] by (simp only: decorador_y_def)
  show "invoke M j (auto_aplicador (auto_aplica_func_interna F)) [u] s' =
      invoke M j (decorador_y F) [u] s'"
    by (simp only: decorador_y_def)
  show "(\<exists>i. invoke M i (decorador_y F) [t] s = Some out) =
      (\<exists>i. invoke M i F [decorador_y F, t] s = Some out)"
  proof
    assume "\<exists>i. invoke M i (decorador_y F) [t] s = Some out"
    then obtain i where i: "invoke M i (decorador_y F) [t] s = Some out"
      by blast
    then obtain i' where "i = Suc i'"
      by (cases i) simp_all
    with i have "invoke M i' (auto_aplica_func_interna F) [auto_aplica_func_interna F, t] s = Some out"
      by (simp add: decorador_y_def auto_aplicador_def)
    moreover from this obtain i'' where "i' = Suc i''"
      by (cases i') simp_all
    ultimately have "invoke M i'' F [decorador_y F, t] s = Some out"
      by (simp add: decorador_y_def auto_aplica_func_interna_def auto_aplicador_def)
    then show "\<exists>i. invoke M i F [decorador_y F, t] s = Some out"
      by blast
  next
    assume "\<exists>i. invoke M i F [decorador_y F, t] s = Some out"
    then obtain i where "invoke M i F [decorador_y F, t] s = Some out"
      by blast
    then have "invoke M (Suc (Suc i)) (decorador_y F) [t] s = Some out"
      by (simp only: invoke_decorador_y)
    then show "\<exists>i. invoke M i (decorador_y F) [t] s = Some out"
      by blast
  qed
qed

theorem decorador_y_unfolds_witness:
  "invoke (decoradorY :: (int, unit) module) 12 (decorador_y (Named ''fact'')) [Const 3] () =
     invoke decoradorY 10 (Named ''fact'') [decorador_y (Named ''fact''), Const 3] () \<and>
   invoke (decoradorY :: (int, unit) module) 10 (Named ''fact'')
     [decorador_y (Named ''fact''), Const 3] () = Some (Inr (Const 6), ())"
proof -
  have "invoke (decoradorY :: (int, unit) module) (Suc (Suc 10)) (decorador_y (Named ''fact''))
      [Const 3] () =
      invoke decoradorY 10 (Named ''fact'') [decorador_y (Named ''fact''), Const 3] ()"
    using decorador_y_unfolds [where M = "decoradorY :: (int, unit) module" and k = 10
        and F = "Named ''fact''" and t = "Const 3" and s = "()"]
    by (simp only: decorador_y_def)
  moreover have "invoke (decoradorY :: (int, unit) module) 10 (Named ''fact'')
      [decorador_y (Named ''fact''), Const 3] () = Some (Inr (Const 6), ())"
    by (simp add: eval_nat_numeral decoradorY_def fact_py_def decorador_y_def auto_aplicador_def
        auto_aplica_func_interna_def)
  ultimately show ?thesis
    by (simp del: invoke.simps)
qed

end
